theory Spec2Isabelle
  imports Main "HOL-Library.Sublist"
begin

section \<open>Python values used by the support bot\<close>

text \<open>
  A Python \<^verbatim>\<open>str\<close> is a sequence of Unicode code points; the bot's texts are
  Cyrillic, so a string is modelled as the list of its code points. \<open>lit\<close> embeds
  an ASCII literal.
\<close>

type_synonym pystr = "nat list"

definition lit :: "string \<Rightarrow> pystr" where
  "lit cs = map of_char cs"

text \<open>
  \<^verbatim>\<open>str.isspace\<close> on one code point: the characters that \<^verbatim>\<open>str.strip()\<close>
  removes when called without an argument (tab to carriage return, the separators
  U+001C to U+001F, space, U+0085, U+00A0, U+1680, U+2000 to U+200A, U+2028, U+2029,
  U+202F, U+205F, U+3000).
\<close>

definition isspace :: "nat \<Rightarrow> bool" where
  "isspace c \<longleftrightarrow>
     (9 \<le> c \<and> c \<le> 13) \<or> (28 \<le> c \<and> c \<le> 32) \<or> c = 133 \<or> c = 160 \<or> c = 5760 \<or>
     (8192 \<le> c \<and> c \<le> 8202) \<or> c = 8232 \<or> c = 8233 \<or> c = 8239 \<or> c = 8287 \<or> c = 12288"

definition strip :: "pystr \<Rightarrow> pystr" where
  "strip s = rev (dropWhile isspace (rev (dropWhile isspace s)))"

text \<open>
  \<^verbatim>\<open>str.upper\<close>, on the ASCII letters. It is applied to the role names only
  (\<^verbatim>\<open>item['role'].upper()\<close>), which are ASCII.
\<close>

definition upper :: "pystr \<Rightarrow> pystr" where
  "upper s = map (\<lambda>c. if 97 \<le> c \<and> c \<le> 122 then c - 32 else c) s"

text \<open>Decimal digits of a natural number, most significant first.\<close>

fun digits :: "nat \<Rightarrow> pystr" where
  "digits n = (if n < 10 then [48 + n] else digits (n div 10) @ [48 + n mod 10])"

declare digits.simps [simp del]

text \<open>\<^verbatim>\<open>str(i)\<close> of a Python int, as an f-string field \<^verbatim>\<open>{i}\<close> inserts it.\<close>

definition str_int :: "int \<Rightarrow> pystr" where
  "str_int i = (if i < 0 then 45 # digits (nat (- i)) else digits (nat i))"

text \<open>A \<^verbatim>\<open>%0wd\<close> field: the digits, padded with zeros on the left up to width \<open>w\<close>.\<close>

definition zpad :: "nat \<Rightarrow> nat \<Rightarrow> pystr" where
  "zpad w n = replicate (w - length (digits n)) 48 @ digits n"

text \<open>
  The slice \<^verbatim>\<open>xs[i:]\<close>: a negative start counts from the end and is clamped at
  the front, a start beyond the end gives the empty list.
\<close>

definition slice_from :: "'a list \<Rightarrow> int \<Rightarrow> 'a list" where
  "slice_from xs i =
     (let n = int (length xs);
          start = (if i < 0 then max 0 (n + i) else min i n)
      in drop (nat start) xs)"

section \<open>Messages and the system prompt\<close>

text \<open>
  The two langchain message classes the bot builds. The reply of the model is stored
  as a \<^verbatim>\<open>SystemMessage\<close> too (line 122 of main.py).
\<close>

datatype message = SystemMessage pystr | HumanMessage pystr

definition SYSTEM_PROMPT :: pystr where
  "SYSTEM_PROMPT =
     [1042, 1099, 32, 8212, 32, 1073, 1086, 1090, 32, 1090, 1077, 1093, 1085, 1080, 1095,
      1077, 1089, 1082, 1086, 1081, 32, 1087, 1086, 1076, 1076, 1077, 1088, 1078, 1082,
      1080, 46, 32, 1042, 1072, 1096, 1072, 32, 1079, 1072, 1076, 1072, 1095, 1072, 58, 32,
      1087, 1086, 1084, 1086, 1075, 1072, 1090, 1100, 32, 1087, 1086, 1083, 1100, 1079,
      1086, 1074, 1072, 1090, 1077, 1083, 1103, 1084, 32, 1088, 1077, 1096, 1072, 1090,
      1100, 32, 1080, 1093, 32, 1090, 1077, 1093, 1085, 1080, 1095, 1077, 1089, 1082, 1080,
      1077, 32, 1087, 1088, 1086, 1073, 1083, 1077, 1084, 1099, 44, 32, 1076, 1072, 1074,
      1072, 1090, 1100, 32, 1080, 1085, 1089, 1090, 1088, 1091, 1082, 1094, 1080, 1080, 32,
      1080, 32, 1089, 1086, 1074, 1077, 1090, 1099, 44, 32, 1072, 32, 1077, 1089, 1083,
      1080, 32, 1080, 1085, 1092, 1086, 1088, 1084, 1072, 1094, 1080, 1080, 32, 1085, 1077,
      1076, 1086, 1089, 1090, 1072, 1090, 1086, 1095, 1085, 1086, 32, 8212, 32, 1087, 1088,
      1086, 1089, 1080, 1090, 1100, 32, 1091, 1090, 1086, 1095, 1085, 1077, 1085, 1080,
      1103, 46]"

section \<open>Context windowing\<close>

text \<open>
  \<^verbatim>\<open>get_recent_messages(messages, max_pairs=8)\<close>, lines 60 to 66: the defensive
  default for an empty list, otherwise the first message followed by the slice
  \<^verbatim>\<open>others[-(max_pairs * 2):]\<close> of the rest.
\<close>

definition get_recent_messages :: "message list \<Rightarrow> int \<Rightarrow> message list" where
  "get_recent_messages messages max_pairs =
     (case messages of
        [] \<Rightarrow> [SystemMessage SYSTEM_PROMPT]
      | system # others \<Rightarrow> [system] @ slice_from others (- (max_pairs * 2)))"

section \<open>Clock readings\<close>

text \<open>
  A value of \<^verbatim>\<open>datetime.utcnow()\<close>. The clock is outside the program: every
  function below takes the readings it makes as arguments, in the order of its calls.
\<close>

record datetime =
  year :: nat
  month :: nat
  day :: nat
  hour :: nat
  minute :: nat
  second :: nat
  microsecond :: nat

text \<open>\<^verbatim>\<open>isoformat()\<close>: the fraction is printed only when it is not zero.\<close>

definition isoformat :: "datetime \<Rightarrow> pystr" where
  "isoformat d =
     zpad 4 (year d) @ lit ''-'' @ zpad 2 (month d) @ lit ''-'' @ zpad 2 (day d) @ lit ''T'' @
     zpad 2 (hour d) @ lit '':'' @ zpad 2 (minute d) @ lit '':'' @ zpad 2 (second d) @
     (if microsecond d = 0 then [] else lit ''.'' @ zpad 6 (microsecond d))"

text \<open>
  \<^verbatim>\<open>strftime("%Y%m%d_%H%M%S")\<close>, as the C library formats it: \<^verbatim>\<open>%Y\<close> is the
  year without padding (\<^verbatim>\<open>999\<close> for the year 999), the other fields have two digits.
\<close>

definition strftime_Ymd_HMS :: "datetime \<Rightarrow> pystr" where
  "strftime_Ymd_HMS d =
     digits (year d) @ zpad 2 (month d) @ zpad 2 (day d) @ lit ''_'' @
     zpad 2 (hour d) @ zpad 2 (minute d) @ zpad 2 (second d)"

section \<open>Exceptions\<close>

text \<open>
  A raised exception, as far as the program looks at it: whether it is an instance of
  class \<^verbatim>\<open>Exception\<close> (what \<^verbatim>\<open>except Exception\<close> catches) and its
  \<^verbatim>\<open>str()\<close>. \<open>Exception d\<close> is any other instance of \<^verbatim>\<open>Exception\<close> with text
  \<open>d\<close>; \<open>BaseException d\<close> is an instance of \<^verbatim>\<open>BaseException\<close> only
  (\<^verbatim>\<open>KeyboardInterrupt\<close>, \<^verbatim>\<open>SystemExit\<close>, \<^verbatim>\<open>asyncio.CancelledError\<close>).
\<close>

datatype exc = KeyError int | OSError pystr | Exception pystr | BaseException pystr

fun is_Exception :: "exc \<Rightarrow> bool" where
  "is_Exception (BaseException d) = False"
| "is_Exception e = True"

fun exc_str :: "exc \<Rightarrow> pystr" where
  "exc_str (KeyError k) = str_int k"
| "exc_str (OSError d) = d"
| "exc_str (Exception d) = d"
| "exc_str (BaseException d) = d"

section \<open>Session store\<close>

text \<open>
  One record of \<^verbatim>\<open>history\<close>: the dict with the keys \<^verbatim>\<open>role\<close>, \<^verbatim>\<open>text\<close>
  (the field \<open>text_of\<close>) and \<^verbatim>\<open>ts\<close>. The program writes three role names only.
\<close>

datatype role = System | User | Bot

fun role_name :: "role \<Rightarrow> pystr" where
  "role_name System = lit ''system''"
| "role_name User = lit ''user''"
| "role_name Bot = lit ''bot''"

record hist_item =
  role :: role
  text_of :: pystr
  ts :: pystr

record session =
  messages :: "message list"
  history :: "hist_item list"

text \<open>The global dict \<^verbatim>\<open>sessions\<close>, from user id to session.\<close>

type_synonym sessions = "int \<Rightarrow> session option"

text \<open>\<^verbatim>\<open>init_session\<close>, lines 43 to 50; \<open>now\<close> is read only when the session is created.\<close>

definition init_session :: "int \<Rightarrow> datetime \<Rightarrow> sessions \<Rightarrow> sessions" where
  "init_session user_id now sessions =
     (case sessions user_id of
        Some sess \<Rightarrow> sessions
      | None \<Rightarrow>
          sessions(user_id \<mapsto>
            \<lparr>messages = [SystemMessage SYSTEM_PROMPT],
             history = [\<lparr>role = System, text_of = SYSTEM_PROMPT, ts = isoformat now\<rparr>]\<rparr>))"

text \<open>
  The two statements \<^verbatim>\<open>sessions[user_id]["messages"].append(m)\<close> and
  \<^verbatim>\<open>sessions[user_id]["history"].append(h)\<close> of lines 112 to 115 and 122 to 125:
  the first lookup raises \<^verbatim>\<open>KeyError\<close> when the user has no session.
\<close>

definition append_turn :: "int \<Rightarrow> message \<Rightarrow> hist_item \<Rightarrow> sessions \<Rightarrow> exc + sessions" where
  "append_turn user_id m h sessions =
     (case sessions user_id of
        None \<Rightarrow> Inl (KeyError user_id)
      | Some sess \<Rightarrow>
          Inr (sessions(user_id \<mapsto>
            sess\<lparr>messages := messages sess @ [m], history := history sess @ [h]\<rparr>)))"

section \<open>Model gateway\<close>

text \<open>
  What \<^verbatim>\<open>giga.invoke\<close> returns: \<open>content\<close> is the attribute that
  \<^verbatim>\<open>getattr(res, "content", str(res))\<close> reads, when the object has it, and \<open>as_str\<close> is
  \<^verbatim>\<open>str(res)\<close>.
\<close>

record response =
  content :: "pystr option"
  as_str :: pystr

definition GIGACHAT_ERROR :: pystr where
  "GIGACHAT_ERROR =
     [1054, 1096, 1080, 1073, 1082, 1072, 32, 1087, 1088, 1080, 32, 1086, 1073, 1088,
      1072, 1097, 1077, 1085, 1080, 1080, 32, 1082, 32, 71, 105, 103, 97, 67, 104, 97,
      116, 58, 32]"

text \<open>
  \<^verbatim>\<open>call_gigachat\<close>, lines 68 to 74. The call of the provider is an argument: it
  returns a response or raises.
\<close>

definition call_gigachat :: "(message list \<Rightarrow> exc + response) \<Rightarrow> message list \<Rightarrow> exc + pystr" where
  "call_gigachat giga_invoke msgs =
     (let payload = get_recent_messages msgs 8 in
      case giga_invoke payload of
        Inr res \<Rightarrow> Inr (case content res of Some c \<Rightarrow> c | None \<Rightarrow> as_str res)
      | Inl e \<Rightarrow> if is_Exception e then Inr (GIGACHAT_ERROR @ exc_str e) else Inl e)"

section \<open>Transcript writer\<close>

text \<open>
  The files of the working directory, by name. Whether a call of \<^verbatim>\<open>open\<close> or
  \<^verbatim>\<open>write\<close> fails is decided outside the program: \<open>FailAt n d\<close> lets \<open>n\<close> calls
  succeed and the next one raise \<^verbatim>\<open>OSError\<close> with text \<open>d\<close>.
\<close>

type_synonym files = "pystr \<Rightarrow> pystr option"

datatype fault = NoFault | FailAt nat pystr

fun io_call :: "fault \<Rightarrow> exc + fault" where
  "io_call NoFault = Inr NoFault"
| "io_call (FailAt 0 d) = Inl (OSError d)"
| "io_call (FailAt (Suc n) d) = Inr (FailAt n d)"

text \<open>
  The loop of lines 84 and 85 over the history, one \<^verbatim>\<open>write\<close> for each record; \<open>buf\<close>
  is what the file holds so far.
\<close>

fun write_history :: "hist_item list \<Rightarrow> fault \<Rightarrow> pystr \<Rightarrow> exc option \<times> pystr" where
  "write_history [] flt buf = (None, buf)"
| "write_history (item # rest) flt buf =
     (case io_call flt of
        Inl e \<Rightarrow> (Some e, buf)
      | Inr flt' \<Rightarrow>
          write_history rest flt'
            (buf @ ts item @ lit ''  '' @ upper (role_name (role item)) @ lit '': '' @
             text_of item @ [10, 10]))"

text \<open>
  \<^verbatim>\<open>save_dialog_to_file_and_clear\<close>, lines 76 to 87. \<open>now1\<close> is the reading of line
  80 and \<open>now2\<close> the one of line 83. The result is the returned file name or the
  exception that leaves the function, with the files and the sessions afterwards.
  A write that raises leaves in the file what the earlier writes put there.
\<close>

definition save_dialog_to_file_and_clear ::
  "int \<Rightarrow> pystr \<Rightarrow> datetime \<Rightarrow> datetime \<Rightarrow> fault \<Rightarrow> files \<times> sessions \<Rightarrow>
   (exc + pystr) \<times> files \<times> sessions" where
  "save_dialog_to_file_and_clear user_id status now1 now2 flt w =
     (let fs = fst w; sessions = snd w in
      (case sessions user_id of
         None \<Rightarrow> (Inr [], fs, sessions)
       | Some sess \<Rightarrow>
          (if history sess = [] then (Inr [], fs, sessions)
           else
            (let stamp = strftime_Ymd_HMS now1;
                 filename = lit ''dialog_'' @ str_int user_id @ lit ''_'' @ status @ lit ''_'' @
                            stamp @ lit ''.txt''
             in (case io_call flt of
                   Inl e \<Rightarrow> (Inl e, fs, sessions)
                 | Inr flt1 \<Rightarrow>
                    (case io_call flt1 of
                       Inl e \<Rightarrow> (Inl e, fs(filename \<mapsto> []), sessions)
                     | Inr flt2 \<Rightarrow>
                        (case write_history (history sess) flt2
                                (lit ''User ID: '' @ str_int user_id @ [10] @
                                 lit ''Saved at: '' @ isoformat now2 @ lit '' UTC'' @ [10] @
                                 lit ''Status: '' @ status @ [10, 10]) of
                           (Some e, buf) \<Rightarrow> (Inl e, fs(filename \<mapsto> buf), sessions)
                         | (None, buf) \<Rightarrow>
                             (Inr filename, fs(filename \<mapsto> buf),
                              sessions(user_id := None)))))))))"

section \<open>Bot controller\<close>

text \<open>
  What a handler reads of an inbound message: \<^verbatim>\<open>message.from_user.id\<close> and
  \<^verbatim>\<open>message.text\<close>, which is \<^verbatim>\<open>None\<close> for a sticker or a photo.
\<close>

record tg_message =
  from_user_id :: int
  message_text :: "pystr option"

text \<open>
  What a handler sends, in order: \<^verbatim>\<open>message.answer(text, reply_markup, parse_mode)\<close>,
  \<^verbatim>\<open>message.reply(text)\<close>, \<^verbatim>\<open>message.chat.do(action)\<close> and
  \<^verbatim>\<open>callback.answer()\<close>. A keyboard is its rows of buttons, each a label with its
  callback data. The sends themselves are taken to succeed.
\<close>

type_synonym keyboard = "(pystr \<times> pystr) list list"

datatype outbound =
    Answer pystr "keyboard option" "pystr option"
  | Reply pystr
  | ChatDo pystr
  | CallbackAnswer

definition GREETING :: pystr where
  "GREETING =
     [128075, 32, 1055, 1088, 1080, 1074, 1077, 1090, 33, 32, 1071, 32, 1073, 1086, 1090,
      32, 1090, 1077, 1093, 1087, 1086, 1076, 1076, 1077, 1088, 1078, 1082, 1080, 46, 10,
      10, 1053, 1072, 1087, 1080, 1096, 1080, 32, 1089, 1074, 1086, 1102, 32, 1087, 1088,
      1086, 1073, 1083, 1077, 1084, 1091, 44, 32, 1072, 32, 1103, 32, 1087, 1086, 1089,
      1090, 1072, 1088, 1072, 1102, 1089, 1100, 32, 1087, 1086, 1084, 1086, 1095, 1100,
      46, 10, 1055, 1086, 1089, 1083, 1077, 32, 1086, 1090, 1074, 1077, 1090, 1072, 32,
      1090, 1099, 32, 1089, 1084, 1086, 1078, 1077, 1096, 1100, 32, 1086, 1090, 1084,
      1077, 1090, 1080, 1090, 1100, 58, 32, 171, 1056, 1077, 1096, 1077, 1085, 1086, 187,
      32, 9989, 32, 1080, 1083, 1080, 32, 171, 1053, 1077, 32, 1088, 1077, 1096, 1077,
      1085, 1086, 187, 32, 10060, 46]"

definition ASK_FOR_TEXT :: pystr where
  "ASK_FOR_TEXT =
     [1055, 1086, 1078, 1072, 1083, 1091, 1081, 1089, 1090, 1072, 44, 32, 1086, 1087,
      1080, 1096, 1080, 32, 1087, 1088, 1086, 1073, 1083, 1077, 1084, 1091, 32, 1090,
      1077, 1082, 1089, 1090, 1086, 1084, 46]"

definition BTN_SOLVED :: pystr where
  "BTN_SOLVED =
     [1056, 1077, 1096, 1077, 1085, 1086, 32, 9989]"

definition BTN_UNSOLVED :: pystr where
  "BTN_UNSOLVED =
     [1053, 1077, 32, 1088, 1077, 1096, 1077, 1085, 1086, 32, 10060]"

definition SOLVED_SAVED :: pystr where
  "SOLVED_SAVED =
     [9989, 32, 1044, 1080, 1072, 1083, 1086, 1075, 32, 1089, 1086, 1093, 1088, 1072,
      1085, 1105, 1085, 58, 32, 96]"

definition SOLVED_EMPTY :: pystr where
  "SOLVED_EMPTY =
     [9989, 32, 1044, 1080, 1072, 1083, 1086, 1075, 32, 1087, 1091, 1089, 1090, 32, 1080,
      1083, 1080, 32, 1091, 1078, 1077, 32, 1089, 1086, 1093, 1088, 1072, 1085, 1105,
      1085, 46]"

definition UNSOLVED_SAVED :: pystr where
  "UNSOLVED_SAVED =
     [10060, 32, 1044, 1080, 1072, 1083, 1086, 1075, 32, 1089, 1086, 1093, 1088, 1072,
      1085, 1105, 1085, 58, 32, 96]"

definition UNSOLVED_SAVED_END :: pystr where
  "UNSOLVED_SAVED_END =
     [96, 46, 32, 1054, 1090, 1087, 1088, 1072, 1074, 1080, 1084, 32, 1074, 32, 83, 101,
      114, 118, 105, 99, 101, 68, 101, 115, 107, 46]"

definition UNSOLVED_EMPTY :: pystr where
  "UNSOLVED_EMPTY =
     [10060, 32, 1044, 1080, 1072, 1083, 1086, 1075, 32, 1087, 1091, 1089, 1090, 32, 1080,
      1083, 1080, 32, 1091, 1078, 1077, 32, 1089, 1086, 1093, 1088, 1072, 1085, 1105,
      1085, 46]"

definition action_keyboard :: keyboard where
  "action_keyboard = [[(BTN_SOLVED, lit ''solved''), (BTN_UNSOLVED, lit ''unsolved'')]]"

text \<open>\<^verbatim>\<open>cmd_start\<close>, lines 91 to 98.\<close>

definition cmd_start :: "tg_message \<Rightarrow> datetime \<Rightarrow> sessions \<Rightarrow> outbound list \<times> sessions" where
  "cmd_start message now sessions =
     ([Answer GREETING None None], init_session (from_user_id message) now sessions)"

text \<open>
  \<^verbatim>\<open>handle_user_message\<close>, lines 100 to 128, run without another handler in
  between. \<open>now0\<close>, \<open>now1\<close> and \<open>now2\<close> are the readings of \<^verbatim>\<open>init_session\<close>, of
  line 114 and of line 124. The result is what was sent, the exception that left the
  handler if one did, and the sessions afterwards.
\<close>

definition handle_user_message ::
  "tg_message \<Rightarrow> datetime \<Rightarrow> datetime \<Rightarrow> datetime \<Rightarrow> (message list \<Rightarrow> exc + response) \<Rightarrow>
   sessions \<Rightarrow> (outbound list \<times> exc option) \<times> sessions" where
  "handle_user_message message now0 now1 now2 giga_invoke sessions =
     (let user_id = from_user_id message;
          text = (case message_text message of None \<Rightarrow> [] | Some t \<Rightarrow> t)
      in if strip text = [] then (([Reply ASK_FOR_TEXT], None), sessions)
         else
          (let sessions1 = init_session user_id now0 sessions in
           (case append_turn user_id (HumanMessage text)
                   \<lparr>role = User, text_of = text, ts = isoformat now1\<rparr> sessions1 of
              Inl e \<Rightarrow> (([], Some e), sessions1)
            | Inr sessions2 \<Rightarrow>
               (case sessions2 user_id of
                  None \<Rightarrow> (([ChatDo (lit ''typing'')], Some (KeyError user_id)), sessions2)
                | Some sess \<Rightarrow>
                   (case call_gigachat giga_invoke (messages sess) of
                      Inl e \<Rightarrow> (([ChatDo (lit ''typing'')], Some e), sessions2)
                    | Inr bot_reply \<Rightarrow>
                       (case append_turn user_id (SystemMessage bot_reply)
                               \<lparr>role = Bot, text_of = bot_reply, ts = isoformat now2\<rparr>
                               sessions2 of
                          Inl e \<Rightarrow> (([ChatDo (lit ''typing'')], Some e), sessions2)
                        | Inr sessions3 \<Rightarrow>
                           (([ChatDo (lit ''typing''),
                              Answer bot_reply (Some action_keyboard) None], None),
                            sessions3)))))))"

text \<open>
  \<^verbatim>\<open>cb_solved\<close> and \<^verbatim>\<open>cb_unsolved\<close>, lines 130 to 151, for the user
  \<^verbatim>\<open>callback.from_user.id\<close>.
\<close>

definition cb_solved ::
  "int \<Rightarrow> datetime \<Rightarrow> datetime \<Rightarrow> fault \<Rightarrow> files \<times> sessions \<Rightarrow>
   (outbound list \<times> exc option) \<times> files \<times> sessions" where
  "cb_solved user_id now1 now2 flt w =
     (case save_dialog_to_file_and_clear user_id (lit ''solved'') now1 now2 flt w of
        (Inl e, w') \<Rightarrow> (([], Some e), w')
      | (Inr filename, w') \<Rightarrow>
          (if filename \<noteq> []
           then (([Answer (SOLVED_SAVED @ filename @ lit ''`'') None (Some (lit ''Markdown'')),
                   CallbackAnswer], None), w')
           else (([Answer SOLVED_EMPTY None None, CallbackAnswer], None), w')))"

definition cb_unsolved ::
  "int \<Rightarrow> datetime \<Rightarrow> datetime \<Rightarrow> fault \<Rightarrow> files \<times> sessions \<Rightarrow>
   (outbound list \<times> exc option) \<times> files \<times> sessions" where
  "cb_unsolved user_id now1 now2 flt w =
     (case save_dialog_to_file_and_clear user_id (lit ''unsolved'') now1 now2 flt w of
        (Inl e, w') \<Rightarrow> (([], Some e), w')
      | (Inr filename, w') \<Rightarrow>
          (if filename \<noteq> []
           then (([Answer (UNSOLVED_SAVED @ filename @ UNSOLVED_SAVED_END) None
                     (Some (lit ''Markdown'')),
                   CallbackAnswer], None), w')
           else (([Answer UNSOLVED_EMPTY None None, CallbackAnswer], None), w')))"

section \<open>The lifetime of a session\<close>

text \<open>
  Between two \<^verbatim>\<open>await\<close>s a handler runs alone, so the sessions change in four kinds
  of step, which handlers of different messages may interleave: the creation of
  \<^verbatim>\<open>init_session\<close>, the user turn of lines 112 to 115, the bot turn of lines 122 to
  125 (which raises \<^verbatim>\<open>KeyError\<close>, and changes nothing, when the session was cleared
  meanwhile), and \<^verbatim>\<open>save_dialog_to_file_and_clear\<close>.
\<close>

datatype action =
    InitSession int datetime
  | UserTurn int pystr datetime
  | BotTurn int pystr datetime
  | SaveAndClear int pystr datetime datetime fault

fun step :: "action \<Rightarrow> files \<times> sessions \<Rightarrow> files \<times> sessions" where
  "step (InitSession user_id now) (fs, sessions) = (fs, init_session user_id now sessions)"
| "step (UserTurn user_id t now) (fs, sessions) =
     (case append_turn user_id (HumanMessage t)
             \<lparr>role = User, text_of = t, ts = isoformat now\<rparr> sessions of
        Inl e \<Rightarrow> (fs, sessions)
      | Inr sessions' \<Rightarrow> (fs, sessions'))"
| "step (BotTurn user_id bot_reply now) (fs, sessions) =
     (case append_turn user_id (SystemMessage bot_reply)
             \<lparr>role = Bot, text_of = bot_reply, ts = isoformat now\<rparr> sessions of
        Inl e \<Rightarrow> (fs, sessions)
      | Inr sessions' \<Rightarrow> (fs, sessions'))"
| "step (SaveAndClear user_id status now1 now2 flt) (fs, sessions) =
     snd (save_dialog_to_file_and_clear user_id status now1 now2 flt (fs, sessions))"

definition run :: "action list \<Rightarrow> files \<times> sessions \<Rightarrow> files \<times> sessions" where
  "run acts w = fold step acts w"

section \<open>The vocabulary of the specification\<close>

text \<open>
  The transcript in the words of the specification: a header with the user id, the save
  timestamp and the status, then every history record as \<open>timestamp  ROLE: text\<close>,
  each followed by one blank line. The labels of the header are those of line 83.
\<close>

definition ROLE :: "role \<Rightarrow> pystr" where
  "ROLE r = (case r of System \<Rightarrow> lit ''SYSTEM'' | User \<Rightarrow> lit ''USER'' | Bot \<Rightarrow> lit ''BOT'')"

definition spec_entry :: "hist_item \<Rightarrow> pystr" where
  "spec_entry item = ts item @ lit ''  '' @ ROLE (role item) @ lit '': '' @ text_of item"

definition spec_header :: "int \<Rightarrow> pystr \<Rightarrow> pystr \<Rightarrow> pystr" where
  "spec_header user_id saved_at status =
     lit ''User ID: '' @ str_int user_id @ [10] @
     lit ''Saved at: '' @ saved_at @ lit '' UTC'' @ [10] @
     lit ''Status: '' @ status @ [10]"

definition spec_transcript :: "int \<Rightarrow> pystr \<Rightarrow> pystr \<Rightarrow> hist_item list \<Rightarrow> pystr" where
  "spec_transcript user_id saved_at status items =
     spec_header user_id saved_at status @ [10] @
     concat (map (\<lambda>item. spec_entry item @ [10] @ [10]) items)"

text \<open>The file name of line 81.\<close>

definition dialog_filename :: "int \<Rightarrow> pystr \<Rightarrow> datetime \<Rightarrow> pystr" where
  "dialog_filename user_id status now =
     lit ''dialog_'' @ str_int user_id @ lit ''_'' @ status @ lit ''_'' @
     strftime_Ymd_HMS now @ lit ''.txt''"

text \<open>
  A decimal digit, and the fields \<open>YYYY\<close> and \<open>MM\<close>, \<open>DD\<close>, \<open>HH\<close>, \<open>MM\<close>, \<open>SS\<close> of a
  timestamp: a number written with exactly four and exactly two decimal digits.
\<close>

definition isdigit :: "nat \<Rightarrow> bool" where
  "isdigit c \<longleftrightarrow> 48 \<le> c \<and> c \<le> 57"

definition four_digits :: "nat \<Rightarrow> pystr" where
  "four_digits n =
     [48 + n div 1000, 48 + n div 100 mod 10, 48 + n div 10 mod 10, 48 + n mod 10]"

definition two_digits :: "nat \<Rightarrow> pystr" where
  "two_digits n = [48 + n div 10, 48 + n mod 10]"

text \<open>
  The invariant of a session: \<open>messages[0]\<close> is the system instruction and
  \<open>history[0]\<close> is the system instruction record.
\<close>

definition session_ok :: "session \<Rightarrow> bool" where
  "session_ok sess \<longleftrightarrow>
     messages sess \<noteq> [] \<and> hd (messages sess) = SystemMessage SYSTEM_PROMPT \<and>
     history sess \<noteq> [] \<and> role (hd (history sess)) = System \<and>
     text_of (hd (history sess)) = SYSTEM_PROMPT"

section \<open>A worked example\<close>

text \<open>
  The session of the specification's scenario: the system record, then the turns
  user "A", bot "B", user "C", bot "D"; and a clock reading.
\<close>

definition example_now :: datetime where
  "example_now =
     \<lparr>year = 2024, month = 1, day = 2, hour = 3, minute = 4, second = 5, microsecond = 0\<rparr>"

definition example_turns :: "hist_item list" where
  "example_turns =
     [\<lparr>role = User, text_of = lit ''A'', ts = lit ''2024-01-02T03:01:00''\<rparr>,
      \<lparr>role = Bot, text_of = lit ''B'', ts = lit ''2024-01-02T03:01:02''\<rparr>,
      \<lparr>role = User, text_of = lit ''C'', ts = lit ''2024-01-02T03:02:00''\<rparr>,
      \<lparr>role = Bot, text_of = lit ''D'', ts = lit ''2024-01-02T03:02:02''\<rparr>]"

definition example_session :: session where
  "example_session =
     \<lparr>messages = [SystemMessage SYSTEM_PROMPT, HumanMessage (lit ''A''), SystemMessage (lit ''B''),
                  HumanMessage (lit ''C''), SystemMessage (lit ''D'')],
      history = \<lparr>role = System, text_of = SYSTEM_PROMPT, ts = lit ''2024-01-02T03:00:00''\<rparr> #
                example_turns\<rparr>"

section \<open>Properties of the Python values\<close>

lemma strip_eq_Nil: "strip s = [] \<longleftrightarrow> (\<forall>c\<in>set s. isspace c)"
proof -
  have "(\<forall>c\<in>set (dropWhile isspace s). isspace c) \<longleftrightarrow> (\<forall>c\<in>set s. isspace c)"
    by (induction s) auto
  then show ?thesis
    by (simp add: strip_def dropWhile_eq_Nil_conv)
qed

lemma digits_nonempty: "digits n \<noteq> []"
  by (subst digits.simps) simp

lemma digits_are_digits: "c \<in> set (digits n) \<Longrightarrow> 48 \<le> c \<and> c \<le> 57"
proof (induction n rule: digits.induct)
  case (1 n)
  show ?case
  proof (cases "n < 10")
    case True
    with "1.prems" show ?thesis by (subst (asm) digits.simps) simp
  next
    case False
    from "1.prems" have "c \<in> set (digits (n div 10)) \<or> c = 48 + n mod 10"
      using False by (subst (asm) digits.simps) auto
    then show ?thesis
    proof
      assume "c \<in> set (digits (n div 10))"
      with "1.IH" False show ?thesis by simp
    next
      assume "c = 48 + n mod 10"
      moreover have "n mod 10 < 10" by simp
      ultimately show ?thesis by linarith
    qed
  qed
qed

lemma length_digits: "n < 10 ^ w \<Longrightarrow> 0 < w \<Longrightarrow> length (digits n) \<le> w"
proof (induction n arbitrary: w rule: digits.induct)
  case (1 n)
  show ?case
  proof (cases "n < 10")
    case True
    then have "digits n = [48 + n]" by (subst digits.simps) simp
    with "1.prems" show ?thesis by simp
  next
    case False
    then have d: "digits n = digits (n div 10) @ [48 + n mod 10]"
      by (subst digits.simps) simp
    from False "1.prems" obtain v where w: "w = Suc v" by (cases w) auto
    have "v \<noteq> 0" using False "1.prems" w by (cases v) auto
    moreover have "n div 10 < 10 ^ v" using "1.prems" w
      by (simp add: less_mult_imp_div_less mult.commute)
    ultimately have "length (digits (n div 10)) \<le> v"
      using "1.IH" [OF False, of v] by simp
    then show ?thesis by (simp add: d w)
  qed
qed

lemma length_zpad: "n < 10 ^ w \<Longrightarrow> 0 < w \<Longrightarrow> length (zpad w n) = w"
  using length_digits [of n w] by (simp add: zpad_def)

lemma zpad_digits: "c \<in> set (zpad w n) \<Longrightarrow> 48 \<le> c \<and> c \<le> 57"
  using digits_are_digits [of c n] by (auto simp: zpad_def)

lemma digits_below_ten: "n < 10 \<Longrightarrow> digits n = [48 + n]"
  by (subst digits.simps) simp

lemma digits_from_ten: "10 \<le> n \<Longrightarrow> digits n = digits (n div 10) @ [48 + n mod 10]"
  by (subst digits.simps) simp

lemma zpad_two_digits:
  assumes "n < 100"
  shows "zpad 2 n = two_digits n"
proof (cases "n < 10")
  case True
  then show ?thesis
    by (simp add: zpad_def two_digits_def digits_below_ten numeral_2_eq_2)
next
  case False
  with assms have "n div 10 < 10" by simp
  with False show ?thesis
    by (simp add: zpad_def two_digits_def digits_from_ten digits_below_ten)
qed

lemma digits_four_digits:
  assumes "1000 \<le> n" and "n \<le> 9999"
  shows "digits n = four_digits n"
proof -
  have a: "10 \<le> n" "10 \<le> n div 10" "10 \<le> n div 10 div 10" "n div 10 div 10 div 10 < 10"
    using assms by simp_all
  have b: "n div 10 div 10 div 10 = n div 1000" "n div 10 div 10 = n div 100"
    by (simp_all add: div_mult2_eq [symmetric])
  show ?thesis
    using a by (simp add: digits_from_ten digits_below_ten four_digits_def b)
qed

lemma two_digits_isdigit: "n < 100 \<Longrightarrow> list_all isdigit (two_digits n)"
  by (simp add: two_digits_def isdigit_def) arith

lemma four_digits_isdigit: "n \<le> 9999 \<Longrightarrow> list_all isdigit (four_digits n)"
  by (simp add: four_digits_def isdigit_def) arith

lemma replicate_numeral: "replicate (numeral k) x = x # replicate (pred_numeral k) x"
  by (simp add: numeral_eq_Suc)

lemmas eval_str = lit_def digits.simps zpad_def str_int_def replicate_numeral


section \<open>Properties of the transcript writer\<close>

lemma upper_role_name: "upper (role_name r) = ROLE r"
  by (cases r) (simp_all add: ROLE_def upper_def lit_def)

lemma entry_line:
  "buf @ ts item @ lit ''  '' @ upper (role_name (role item)) @ lit '': '' @ text_of item @ [10, 10] =
   (buf @ spec_entry item @ [10] @ [10])"
  by (simp add: spec_entry_def upper_role_name)

lemma write_history_complete:
  "write_history items flt buf = (None, out) \<Longrightarrow>
   out = buf @ concat (map (\<lambda>item. spec_entry item @ [10] @ [10]) items)"
proof (induction items arbitrary: flt buf)
  case Nil
  then show ?case by simp
next
  case (Cons item items)
  from Cons.prems obtain flt' where
    "write_history items flt' (buf @ spec_entry item @ [10] @ [10]) = (None, out)"
    unfolding write_history.simps entry_line by (auto split: sum.splits)
  from Cons.IH [OF this] show ?case by simp
qed

lemma write_history_NoFault:
  "write_history items NoFault buf =
     (None, buf @ concat (map (\<lambda>item. spec_entry item @ [10] @ [10]) items))"
  by (induction items arbitrary: buf) (simp_all add: entry_line del: append_assoc)

text \<open>
  The three ways \<^verbatim>\<open>save_dialog_to_file_and_clear\<close> ends: nothing to save, an
  \<^verbatim>\<open>open\<close> or \<^verbatim>\<open>write\<close> that raised, or the transcript written and the session
  removed.
\<close>

lemma save_cases:
  assumes "save_dialog_to_file_and_clear user_id status now1 now2 flt (fs, sessions) =
             (r, fs', sessions')"
  obtains
    (nothing) "r = Inr []" "fs' = fs" "sessions' = sessions"
      "sessions user_id = None \<or> (\<exists>sess. sessions user_id = Some sess \<and> history sess = [])"
  | (failed) e sess where "r = Inl e" "sessions' = sessions"
      "sessions user_id = Some sess" "history sess \<noteq> []"
  | (saved) sess where "sessions user_id = Some sess" "history sess \<noteq> []"
      "r = Inr (dialog_filename user_id status now1)"
      "fs' = fs(dialog_filename user_id status now1 \<mapsto>
                spec_transcript user_id (isoformat now2) status (history sess))"
      "sessions' = sessions(user_id := None)"
proof (cases "sessions user_id")
  case None
  show ?thesis
    by (rule nothing) (use assms None in \<open>auto simp: save_dialog_to_file_and_clear_def\<close>)
next
  case (Some sess)
  show ?thesis
  proof (cases "history sess = []")
    case True
    show ?thesis
      by (rule nothing)
         (use assms Some True in \<open>auto simp: save_dialog_to_file_and_clear_def\<close>)
  next
    case False
    show ?thesis
    proof (cases r)
      case (Inl e)
      with Some False assms have "sessions' = sessions"
        by (auto simp: save_dialog_to_file_and_clear_def Let_def
                 split: sum.splits prod.splits option.splits)
      with Inl Some False show ?thesis by (auto intro: failed)
    next
      case (Inr filename)
      show ?thesis
        by (rule saved [of sess])
           (use Inr Some False assms in
             \<open>auto simp: save_dialog_to_file_and_clear_def Let_def dialog_filename_def
                         spec_transcript_def spec_header_def
                   split: sum.splits prod.splits option.splits
                   dest!: write_history_complete\<close>)
    qed
  qed
qed

lemma save_succeeds:
  assumes "sessions user_id = Some sess" and "history sess \<noteq> []"
  shows "save_dialog_to_file_and_clear user_id status now1 now2 NoFault (fs, sessions) =
           (Inr (dialog_filename user_id status now1),
            fs(dialog_filename user_id status now1 \<mapsto>
                 spec_transcript user_id (isoformat now2) status (history sess)),
            sessions(user_id := None))"
  using assms
  by (simp add: save_dialog_to_file_and_clear_def Let_def write_history_NoFault
        dialog_filename_def spec_transcript_def spec_header_def)

lemma filename_nonempty: "dialog_filename user_id status now \<noteq> []"
  by (simp add: dialog_filename_def lit_def)

lemma io_call_numeral: "io_call (FailAt (numeral k) d) = Inr (FailAt (pred_numeral k) d)"
  by (simp add: numeral_eq_Suc)

section \<open>The worked example, evaluated\<close>

lemma example_filename:
  "dialog_filename 42 (lit ''solved'') example_now = lit ''dialog_42_solved_20240102_030405.txt''"
  by (simp add: dialog_filename_def strftime_Ymd_HMS_def example_now_def eval_str)

lemma example_isoformat: "isoformat example_now = lit ''2024-01-02T03:04:05''"
  by (simp add: isoformat_def example_now_def eval_str)

lemma example_save:
  "save_dialog_to_file_and_clear 42 (lit ''solved'') example_now example_now NoFault
     (Map.empty, [42 \<mapsto> example_session]) =
   (Inr (dialog_filename 42 (lit ''solved'') example_now),
    [dialog_filename 42 (lit ''solved'') example_now \<mapsto>
       spec_transcript 42 (isoformat example_now) (lit ''solved'') (history example_session)],
    Map.empty)"
proof -
  have h: "history example_session \<noteq> []" by (simp add: example_session_def)
  show ?thesis
    using h
    by (simp add: save_dialog_to_file_and_clear_def Let_def write_history_NoFault
          dialog_filename_def spec_transcript_def spec_header_def)
qed

lemma example_save_fails:
  "\<exists>fs'. save_dialog_to_file_and_clear 42 (lit ''solved'') example_now example_now
     (FailAt 3 (lit ''No space left on device'')) (Map.empty, [42 \<mapsto> example_session]) =
   (Inl (OSError (lit ''No space left on device'')), fs', [42 \<mapsto> example_session])"
  by (simp add: save_dialog_to_file_and_clear_def Let_def example_session_def example_turns_def
        io_call_numeral)

lemma example_run:
  "run [InitSession 42 example_now, UserTurn 42 (lit ''A'') example_now,
        BotTurn 7 (lit ''lost'') example_now, BotTurn 42 (lit ''B'') example_now,
        SaveAndClear 7 (lit ''solved'') example_now example_now NoFault]
     (Map.empty, Map.empty) =
   (Map.empty,
    [42 \<mapsto> \<lparr>messages = [SystemMessage SYSTEM_PROMPT, HumanMessage (lit ''A''),
                           SystemMessage (lit ''B'')],
             history = [\<lparr>role = System, text_of = SYSTEM_PROMPT, ts = isoformat example_now\<rparr>,
                        \<lparr>role = User, text_of = lit ''A'', ts = isoformat example_now\<rparr>,
                        \<lparr>role = Bot, text_of = lit ''B'', ts = isoformat example_now\<rparr>]\<rparr>])"
  by (simp add: run_def init_session_def append_turn_def save_dialog_to_file_and_clear_def)

section \<open>Properties of the session steps\<close>

lemma init_session_present: "init_session user_id now sessions user_id \<noteq> None"
  by (simp add: init_session_def split: option.splits)

lemma init_session_ok:
  assumes "\<forall>u s. sessions u = Some s \<longrightarrow> session_ok s"
    and "init_session user_id now sessions u = Some s"
  shows "session_ok s"
  using assms by (auto simp: init_session_def session_ok_def split: option.splits if_splits)

lemma append_turn_ok:
  assumes "\<forall>u s. sessions u = Some s \<longrightarrow> session_ok s"
    and "append_turn user_id m h sessions = Inr sessions'" and "sessions' u = Some s"
  shows "session_ok s"
  using assms by (auto simp: append_turn_def session_ok_def split: option.splits if_splits)

lemma step_ok:
  assumes "\<forall>u s. snd w u = Some s \<longrightarrow> session_ok s"
  shows "\<forall>u s. snd (step a w) u = Some s \<longrightarrow> session_ok s"
proof (cases w)
  case (Pair fs sessions)
  show ?thesis
  proof (cases a)
    case (InitSession user_id now)
    with assms Pair show ?thesis by (auto dest: init_session_ok [rotated])
  next
    case (UserTurn user_id t now)
    with assms Pair show ?thesis
      by (auto split: sum.splits dest: append_turn_ok [rotated])
  next
    case (BotTurn user_id t now)
    with assms Pair show ?thesis
      by (auto split: sum.splits dest: append_turn_ok [rotated])
  next
    case (SaveAndClear user_id status now1 now2 flt)
    obtain r fs' sessions' where
      s: "save_dialog_to_file_and_clear user_id status now1 now2 flt (fs, sessions) =
            (r, fs', sessions')"
      by (metis prod_cases3)
    then have "sessions' = sessions \<or> sessions' = sessions(user_id := None)"
      by (cases rule: save_cases) auto
    with assms Pair SaveAndClear s show ?thesis by (auto split: if_splits)
  qed
qed

lemma run_ok:
  assumes "\<forall>u s. snd w u = Some s \<longrightarrow> session_ok s"
  shows "\<forall>u s. snd (run acts w) u = Some s \<longrightarrow> session_ok s"
  using assms unfolding run_def
proof (induction acts arbitrary: w)
  case Nil
  then show ?case by simp
next
  case (Cons a acts)
  from Cons.IH [OF step_ok [OF Cons.prems]] show ?case by simp
qed

lemma step_appends:
  assumes "sessions u = Some s" and "snd (step a (fs, sessions)) u = Some s'"
  shows "prefix (messages s) (messages s') \<and> prefix (history s) (history s')"
proof (cases a)
  case (InitSession user_id now)
  with assms show ?thesis by (auto simp: init_session_def split: option.splits if_splits)
next
  case (UserTurn user_id t now)
  with assms show ?thesis
    by (auto simp: append_turn_def split: sum.splits option.splits if_splits)
next
  case (BotTurn user_id t now)
  with assms show ?thesis
    by (auto simp: append_turn_def split: sum.splits option.splits if_splits)
next
  case (SaveAndClear user_id status now1 now2 flt)
  obtain r fs' sessions' where
    s: "save_dialog_to_file_and_clear user_id status now1 now2 flt (fs, sessions) =
          (r, fs', sessions')"
    by (metis prod_cases3)
  then have "sessions' = sessions \<or> sessions' = sessions(user_id := None)"
    by (cases rule: save_cases) auto
  with assms SaveAndClear s show ?thesis by (auto split: if_splits)
qed

text \<open>
  What the handlers do to the sessions is a run of these steps: \<^verbatim>\<open>cmd_start\<close> is a
  creation, a resolution callback is a save, and \<^verbatim>\<open>handle_user_message\<close> on a text that
  is not blank is a creation and a user turn, followed by a bot turn when the gateway
  returned.
\<close>

lemma cmd_start_as_step:
  "snd (cmd_start message now sessions) =
   snd (step (InitSession (from_user_id message) now) (fs, sessions))"
  by (simp add: cmd_start_def)

lemma cb_solved_as_step:
  "snd (cb_solved user_id now1 now2 flt w) =
   step (SaveAndClear user_id (lit ''solved'') now1 now2 flt) w"
  by (cases w) (auto simp: cb_solved_def split: prod.splits sum.splits)

lemma cb_unsolved_as_step:
  "snd (cb_unsolved user_id now1 now2 flt w) =
   step (SaveAndClear user_id (lit ''unsolved'') now1 now2 flt) w"
  by (cases w) (auto simp: cb_unsolved_def split: prod.splits sum.splits)

lemma handle_user_message_as_steps:
  assumes "message_text message = Some t" and "strip t \<noteq> []"
  shows "\<exists>acts.
           (acts = [InitSession (from_user_id message) now0,
                    UserTurn (from_user_id message) t now1]
            \<or> (\<exists>bot_reply.
                 acts = [InitSession (from_user_id message) now0,
                         UserTurn (from_user_id message) t now1,
                         BotTurn (from_user_id message) bot_reply now2]))
           \<and> snd (handle_user_message message now0 now1 now2 giga_invoke sessions) =
               snd (run acts (fs, sessions))"
proof -
  let ?u = "from_user_id message"
  obtain sess where s1: "init_session ?u now0 sessions ?u = Some sess"
    using init_session_present [of ?u now0 sessions] by auto
  show ?thesis
  proof (cases "call_gigachat giga_invoke (messages sess @ [HumanMessage t])")
    case (Inl e)
    have "snd (handle_user_message message now0 now1 now2 giga_invoke sessions) =
        snd (run [InitSession ?u now0, UserTurn ?u t now1] (fs, sessions))"
      using assms s1 Inl by (simp add: handle_user_message_def run_def append_turn_def Let_def)
    then show ?thesis by blast
  next
    case (Inr bot_reply)
    have "snd (handle_user_message message now0 now1 now2 giga_invoke sessions) =
        snd (run [InitSession ?u now0, UserTurn ?u t now1, BotTurn ?u bot_reply now2]
               (fs, sessions))"
      using assms s1 Inr by (simp add: handle_user_message_def run_def append_turn_def Let_def)
    then show ?thesis by blast
  qed
qed

text \<open>
  Run alone, \<^verbatim>\<open>handle_user_message\<close> never fails at a lookup of its own session.
\<close>

lemma handle_user_message_no_KeyError:
  "snd (fst (handle_user_message message now0 now1 now2 giga_invoke sessions)) \<noteq>
     Some (KeyError k)"
proof -
  let ?u = "from_user_id message"
  obtain sess where s1: "init_session ?u now0 sessions ?u = Some sess"
    using init_session_present [of ?u now0 sessions] by auto
  show ?thesis
    using s1
    by (auto simp: handle_user_message_def append_turn_def Let_def call_gigachat_def
             split: sum.splits option.splits if_splits)
qed

section \<open>The claims\<close>




text \<open>
  C2. In every state reached from the empty session map by any sequence of the steps that
  change it (the creation of \<^verbatim>\<open>init_session\<close>, the user-turn and bot-turn appends of
  \<^verbatim>\<open>handle_user_message\<close>, and \<^verbatim>\<open>save_dialog_to_file_and_clear\<close>), every session has
  the fixed system instruction as \<open>messages[0]\<close> and the system instruction record as
  \<open>history[0]\<close>; and a further step either discards the session or leaves both sequences
  extended at the end only.
\<close>

theorem session_starts_with_system_instruction:
  assumes "run acts (fs0, Map.empty) = (fs, sessions)" and "sessions user_id = Some sess"
  shows "messages sess \<noteq> [] \<and> hd (messages sess) = SystemMessage SYSTEM_PROMPT
         \<and> history sess \<noteq> [] \<and> role (hd (history sess)) = System
         \<and> text_of (hd (history sess)) = SYSTEM_PROMPT
         \<and> (\<forall>a sess'. snd (step a (fs, sessions)) user_id = Some sess' \<longrightarrow>
               prefix (messages sess) (messages sess') \<and> prefix (history sess) (history sess'))"
proof -
  have "\<forall>u s. snd (run acts (fs0, Map.empty)) u = Some s \<longrightarrow> session_ok s"
    by (rule run_ok) simp
  with assms have "session_ok sess" by simp
  moreover have "prefix (messages sess) (messages sess') \<and> prefix (history sess) (history sess')"
    if "snd (step a (fs, sessions)) user_id = Some sess'" for a sess'
    using assms(2) that by (rule step_appends)
  ultimately show ?thesis
    by (simp add: session_ok_def)
qed

theorem session_starts_with_system_instruction_witness:
  "snd (run [InitSession 42 example_now, UserTurn 42 (lit ''A'') example_now,
             BotTurn 7 (lit ''lost'') example_now, BotTurn 42 (lit ''B'') example_now,
             SaveAndClear 7 (lit ''solved'') example_now example_now NoFault]
          (Map.empty, Map.empty)) 42 =
     Some \<lparr>messages = [SystemMessage SYSTEM_PROMPT, HumanMessage (lit ''A''),
                       SystemMessage (lit ''B'')],
           history = [\<lparr>role = System, text_of = SYSTEM_PROMPT, ts = isoformat example_now\<rparr>,
                      \<lparr>role = User, text_of = lit ''A'', ts = isoformat example_now\<rparr>,
                      \<lparr>role = Bot, text_of = lit ''B'', ts = isoformat example_now\<rparr>]\<rparr>
   \<and> hd (messages \<lparr>messages = [SystemMessage SYSTEM_PROMPT, HumanMessage (lit ''A''),
                       SystemMessage (lit ''B'')],
           history = [\<lparr>role = System, text_of = SYSTEM_PROMPT, ts = isoformat example_now\<rparr>,
                      \<lparr>role = User, text_of = lit ''A'', ts = isoformat example_now\<rparr>,
                      \<lparr>role = Bot, text_of = lit ''B'', ts = isoformat example_now\<rparr>]\<rparr>) =
     SystemMessage SYSTEM_PROMPT"
  using session_starts_with_system_instruction [OF example_run, of 42]
  by (simp add: example_run)

text \<open>
  C3, as amended. For every message list, if the call of the provider raises an exception
  \<open>e\<close> that is an instance of class \<^verbatim>\<open>Exception\<close>, \<^verbatim>\<open>call_gigachat\<close> does not let it
  out: it returns a string, which is not empty and is the fixed error text followed by
  \<open>str(e)\<close>.
\<close>

theorem call_gigachat_returns_error_text:
  assumes "giga_invoke (get_recent_messages msgs 8) = Inl e" and "is_Exception e"
  shows "call_gigachat giga_invoke msgs = Inr (GIGACHAT_ERROR @ exc_str e)
         \<and> GIGACHAT_ERROR @ exc_str e \<noteq> []"
  using assms by (simp add: call_gigachat_def GIGACHAT_ERROR_def)

theorem call_gigachat_returns_error_text_witness:
  "is_Exception (Exception (lit ''timed out''))
   \<and> call_gigachat (\<lambda>payload. Inl (Exception (lit ''timed out'')))
       [SystemMessage SYSTEM_PROMPT, HumanMessage (lit ''hi'')] =
     Inr (GIGACHAT_ERROR @ lit ''timed out'')"
  using call_gigachat_returns_error_text
    [of "\<lambda>payload. Inl (Exception (lit ''timed out''))"
        "[SystemMessage SYSTEM_PROMPT, HumanMessage (lit ''hi'')]" "Exception (lit ''timed out'')"]
  by simp

text \<open>
  C3 as stated covers every exception; one that derives from \<^verbatim>\<open>BaseException\<close> only, as
  \<^verbatim>\<open>asyncio.CancelledError\<close> at the \<^verbatim>\<open>await\<close> of line 71, passes
  \<^verbatim>\<open>except Exception\<close> and leaves \<^verbatim>\<open>call_gigachat\<close>.
\<close>

theorem call_gigachat_propagates_counterexample:
  "call_gigachat (\<lambda>payload. Inl (BaseException (lit ''cancelled'')))
     [SystemMessage SYSTEM_PROMPT, HumanMessage (lit ''hi'')] =
   Inl (BaseException (lit ''cancelled''))"
  by (simp add: call_gigachat_def)

text \<open>
  C4. After \<^verbatim>\<open>save_dialog_to_file_and_clear\<close> has returned a non-empty file name for a
  user, there is no session for that user, and a save for the same user that follows
  immediately returns the empty string and changes neither the files nor the sessions.
\<close>

theorem save_clears_session:
  assumes "save_dialog_to_file_and_clear user_id status now1 now2 flt (fs, sessions) =
             (Inr filename, fs', sessions')"
    and "filename \<noteq> []"
  shows "sessions' user_id = None
         \<and> save_dialog_to_file_and_clear user_id status' now3 now4 flt' (fs', sessions') =
             (Inr [], fs', sessions')"
proof -
  from assms have "sessions' user_id = None"
    by (cases rule: save_cases) auto
  then show ?thesis
    by (simp add: save_dialog_to_file_and_clear_def)
qed

theorem save_clears_session_witness:
  "save_dialog_to_file_and_clear 42 (lit ''solved'') example_now example_now NoFault
     (snd (save_dialog_to_file_and_clear 42 (lit ''solved'') example_now example_now NoFault
        (Map.empty, [42 \<mapsto> example_session]))) =
   (Inr [], snd (save_dialog_to_file_and_clear 42 (lit ''solved'') example_now example_now NoFault
        (Map.empty, [42 \<mapsto> example_session])))"
  using save_clears_session [OF example_save filename_nonempty]
  by (simp add: example_save)

text \<open>
  C5. If the user has no session, or the session's history is empty,
  \<^verbatim>\<open>save_dialog_to_file_and_clear\<close> returns the empty string, writes no file and leaves the
  session map unchanged.
\<close>

theorem save_nothing_to_save:
  assumes "sessions user_id = None \<or> (\<exists>sess. sessions user_id = Some sess \<and> history sess = [])"
  shows "save_dialog_to_file_and_clear user_id status now1 now2 flt (fs, sessions) =
           (Inr [], fs, sessions)"
  using assms by (auto simp: save_dialog_to_file_and_clear_def)

theorem save_nothing_to_save_witness:
  "save_dialog_to_file_and_clear 42 (lit ''solved'') example_now example_now NoFault
     (Map.empty, Map.empty) = (Inr [], Map.empty, Map.empty)
   \<and> save_dialog_to_file_and_clear 42 (lit ''unsolved'') example_now example_now (FailAt 0 [])
     (Map.empty, [42 \<mapsto> \<lparr>messages = [SystemMessage SYSTEM_PROMPT], history = []\<rparr>]) =
     (Inr [], Map.empty, [42 \<mapsto> \<lparr>messages = [SystemMessage SYSTEM_PROMPT], history = []\<rparr>])"
  using save_nothing_to_save [of Map.empty 42 "lit ''solved''" example_now example_now NoFault Map.empty]
    save_nothing_to_save [of "[42 \<mapsto> \<lparr>messages = [SystemMessage SYSTEM_PROMPT], history = []\<rparr>]" 42
      "lit ''unsolved''" example_now example_now "FailAt 0 []" Map.empty]
  by simp

text \<open>
  C6, as amended. For every session with a non-empty history, the transcript that a
  successful \<^verbatim>\<open>save_dialog_to_file_and_clear\<close> writes is the header (user id, save timestamp,
  status) followed by every history record in chronological order, each as
  \<open>timestamp  ROLE: text\<close> and followed by one blank line. For the history
  [system, user "A", bot "B", user "C", bot "D"] and the status "solved" five entries
  follow the header: the system record and then those four, in that order.
\<close>

theorem transcript_written:
  assumes "save_dialog_to_file_and_clear user_id status now1 now2 flt (fs, sessions) =
             (Inr filename, fs', sessions')"
    and "filename \<noteq> []"
  shows "\<exists>sess. sessions user_id = Some sess \<and> history sess \<noteq> [] \<and>
           fs' filename =
             Some (spec_header user_id (isoformat now2) status @ [10] @
                   concat (map (\<lambda>item. spec_entry item @ [10] @ [10]) (history sess)))"
  using assms by (cases rule: save_cases) (auto simp: spec_transcript_def)

theorem transcript_written_witness:
  "fst (snd (save_dialog_to_file_and_clear 42 (lit ''solved'') example_now example_now NoFault
         (Map.empty, [42 \<mapsto> example_session])))
     (lit ''dialog_42_solved_20240102_030405.txt'') =
   Some (lit ''User ID: 42'' @ [10] @ lit ''Saved at: 2024-01-02T03:04:05 UTC'' @ [10] @
         lit ''Status: solved'' @ [10] @ [10] @
         lit ''2024-01-02T03:00:00  SYSTEM: '' @ SYSTEM_PROMPT @ [10] @ [10] @
         lit ''2024-01-02T03:01:00  USER: A'' @ [10] @ [10] @
         lit ''2024-01-02T03:01:02  BOT: B'' @ [10] @ [10] @
         lit ''2024-01-02T03:02:00  USER: C'' @ [10] @ [10] @
         lit ''2024-01-02T03:02:02  BOT: D'' @ [10] @ [10])"
proof -
  from transcript_written [OF example_save filename_nonempty]
  have "[dialog_filename 42 (lit ''solved'') example_now \<mapsto>
           spec_transcript 42 (isoformat example_now) (lit ''solved'') (history example_session)]
          (dialog_filename 42 (lit ''solved'') example_now) =
        Some (spec_header 42 (isoformat example_now) (lit ''solved'') @ [10] @
              concat (map (\<lambda>item. spec_entry item @ [10] @ [10]) (history example_session)))"
    by simp
  then show ?thesis
    unfolding example_save example_filename example_isoformat
    by (simp add: example_session_def example_turns_def spec_header_def spec_entry_def
          ROLE_def eval_str)
qed

text \<open>
  C6 as stated has exactly the four turns after the header; the file starts with the
  system record, so its content is not the header followed by the four turns.
\<close>

theorem transcript_four_entries_counterexample:
  "fst (snd (save_dialog_to_file_and_clear 42 (lit ''solved'') example_now example_now NoFault
         (Map.empty, [42 \<mapsto> example_session])))
     (lit ''dialog_42_solved_20240102_030405.txt'') \<noteq>
   Some (spec_header 42 (isoformat example_now) (lit ''solved'') @ [10] @
         concat (map (\<lambda>item. spec_entry item @ [10] @ [10]) example_turns))"
proof -
  have "length (spec_transcript 42 (isoformat example_now) (lit ''solved'') (history example_session))
        \<noteq> length (spec_header 42 (isoformat example_now) (lit ''solved'') @ [10] @
         concat (map (\<lambda>item. spec_entry item @ [10] @ [10]) example_turns))"
    by (simp add: spec_transcript_def example_session_def)
  then show ?thesis
    unfolding example_save example_filename [symmetric] by auto
qed

text \<open>
  C7, as amended. For every successful save at a clock reading with a four-digit year, the
  file name is exactly \<open>dialog_<userId>_<status>_<YYYYMMDD_HHMMSS>.txt\<close>: the user id in
  decimal, the status (one of "solved" and "unsolved"), and the year, month, day, hour,
  minute and second of the clock reading of line 80, with four digits for the year and
  two for each other field, followed by the extension \<open>.txt\<close>.
\<close>

theorem dialog_filename_shape:
  assumes "save_dialog_to_file_and_clear user_id status now1 now2 flt (fs, sessions) =
             (Inr filename, fs', sessions')"
    and "filename \<noteq> []"
    and "1000 \<le> year now1" "year now1 \<le> 9999" "month now1 \<le> 12" "day now1 \<le> 31"
    and "hour now1 < 24" "minute now1 < 60" "second now1 < 60"
  shows "filename =
           lit ''dialog_'' @ str_int user_id @ lit ''_'' @ status @ lit ''_'' @
           four_digits (year now1) @ two_digits (month now1) @ two_digits (day now1) @
           lit ''_'' @
           two_digits (hour now1) @ two_digits (minute now1) @ two_digits (second now1) @
           lit ''.txt''
         \<and> list_all isdigit
             (four_digits (year now1) @ two_digits (month now1) @ two_digits (day now1))
         \<and> list_all isdigit
             (two_digits (hour now1) @ two_digits (minute now1) @ two_digits (second now1))"
proof -
  from assms(1,2) have f: "filename = dialog_filename user_id status now1"
    by (cases rule: save_cases) auto
  have y: "digits (year now1) = four_digits (year now1)"
    using assms(3,4) by (rule digits_four_digits)
  have z: "zpad 2 (month now1) = two_digits (month now1)"
    "zpad 2 (day now1) = two_digits (day now1)"
    "zpad 2 (hour now1) = two_digits (hour now1)"
    "zpad 2 (minute now1) = two_digits (minute now1)"
    "zpad 2 (second now1) = two_digits (second now1)"
    using assms(5-9) by (simp_all add: zpad_two_digits)
  have "filename =
           lit ''dialog_'' @ str_int user_id @ lit ''_'' @ status @ lit ''_'' @
           four_digits (year now1) @ two_digits (month now1) @ two_digits (day now1) @
           lit ''_'' @
           two_digits (hour now1) @ two_digits (minute now1) @ two_digits (second now1) @
           lit ''.txt''"
    by (simp add: f dialog_filename_def strftime_Ymd_HMS_def y z)
  moreover have "list_all isdigit (four_digits (year now1))"
    using assms(4) by (rule four_digits_isdigit)
  moreover have "list_all isdigit (two_digits (month now1))"
    "list_all isdigit (two_digits (day now1))"
    "list_all isdigit (two_digits (hour now1))"
    "list_all isdigit (two_digits (minute now1))"
    "list_all isdigit (two_digits (second now1))"
    using assms(5-9) by (simp_all add: two_digits_isdigit)
  ultimately show ?thesis by simp
qed

theorem dialog_filename_shape_witness:
  "lit ''dialog_42_solved_20240102_030405.txt'' =
     lit ''dialog_'' @ str_int 42 @ lit ''_'' @ lit ''solved'' @ lit ''_'' @
     four_digits 2024 @ two_digits 1 @ two_digits 2 @ lit ''_'' @
     two_digits 3 @ two_digits 4 @ two_digits 5 @ lit ''.txt''"
  using dialog_filename_shape [OF example_save filename_nonempty]
  unfolding example_filename by (simp add: example_now_def)

text \<open>
  C7 as stated ends the name with the timestamp, and gives the date eight digits at every
  clock reading; the name of line 81 ends with \<open>.txt\<close>, and at the year 999 its date has
  seven digits.
\<close>

theorem dialog_filename_counterexample:
  "fst (save_dialog_to_file_and_clear 42 (lit ''solved'') example_now example_now NoFault
         (Map.empty, [42 \<mapsto> example_session])) =
     Inr (lit ''dialog_42_solved_20240102_030405.txt'')
   \<and> fst (save_dialog_to_file_and_clear 42 (lit ''solved'') example_now example_now NoFault
         (Map.empty, [42 \<mapsto> example_session])) \<noteq>
     Inr (lit ''dialog_'' @ str_int 42 @ lit ''_'' @ lit ''solved'' @ lit ''_'' @
          four_digits 2024 @ two_digits 1 @ two_digits 2 @ lit ''_'' @
          two_digits 3 @ two_digits 4 @ two_digits 5)
   \<and> fst (save_dialog_to_file_and_clear 42 (lit ''solved'') (example_now\<lparr>year := 999\<rparr>)
         example_now NoFault (Map.empty, [42 \<mapsto> example_session])) =
     Inr (lit ''dialog_42_solved_9990102_030405.txt'')"
proof -
  have "fst (save_dialog_to_file_and_clear 42 (lit ''solved'') (example_now\<lparr>year := 999\<rparr>)
         example_now NoFault (Map.empty, [42 \<mapsto> example_session])) =
     Inr (dialog_filename 42 (lit ''solved'') (example_now\<lparr>year := 999\<rparr>))"
    by (simp add: save_succeeds example_session_def)
  moreover have "dialog_filename 42 (lit ''solved'') (example_now\<lparr>year := 999\<rparr>) =
      lit ''dialog_42_solved_9990102_030405.txt''"
    by (simp add: dialog_filename_def strftime_Ymd_HMS_def example_now_def eval_str)
  ultimately show ?thesis
    unfolding example_save example_filename
    by (simp add: four_digits_def two_digits_def lit_def)
qed

text \<open>
  C8. For every message whose text is empty or consists of whitespace only,
  \<^verbatim>\<open>handle_user_message\<close> sends the request for a text and nothing else, and the sessions
  are unchanged: no session is created and nothing is appended.
\<close>

theorem blank_text_no_mutation:
  assumes "message_text message = Some t" and "\<forall>c\<in>set t. isspace c"
  shows "handle_user_message message now0 now1 now2 giga_invoke sessions =
           (([Reply ASK_FOR_TEXT], None), sessions)"
  using assms by (simp add: handle_user_message_def strip_eq_Nil)

theorem blank_text_no_mutation_witness:
  "handle_user_message \<lparr>from_user_id = 42, message_text = Some (lit ''  '')\<rparr>
     example_now example_now example_now (\<lambda>payload. Inl (Exception [])) [42 \<mapsto> example_session] =
   (([Reply ASK_FOR_TEXT], None), [42 \<mapsto> example_session])
   \<and> handle_user_message \<lparr>from_user_id = 7, message_text = Some []\<rparr>
     example_now example_now example_now (\<lambda>payload. Inl (Exception [])) Map.empty =
   (([Reply ASK_FOR_TEXT], None), Map.empty)"
  using blank_text_no_mutation
    [of "\<lparr>from_user_id = 42, message_text = Some (lit ''  '')\<rparr>" "lit ''  ''"
        example_now example_now example_now "\<lambda>payload. Inl (Exception [])"
        "[42 \<mapsto> example_session]"]
    blank_text_no_mutation
    [of "\<lparr>from_user_id = 7, message_text = Some []\<rparr>" "[]"
        example_now example_now example_now "\<lambda>payload. Inl (Exception [])" Map.empty]
  by (simp add: lit_def isspace_def)

text \<open>
  C9. For every message without a text (\<^verbatim>\<open>message.text\<close> is \<^verbatim>\<open>None\<close>),
  \<^verbatim>\<open>handle_user_message\<close> does what it does for a whitespace-only text: it sends the request
  for a text and leaves the sessions unchanged.
\<close>

theorem missing_text_like_blank:
  assumes "message_text message = None"
  shows "handle_user_message message now0 now1 now2 giga_invoke sessions =
           (([Reply ASK_FOR_TEXT], None), sessions)
         \<and> handle_user_message message now0 now1 now2 giga_invoke sessions =
           handle_user_message (message\<lparr>message_text := Some (lit ''  '')\<rparr>)
             now0 now1 now2 giga_invoke sessions"
  using assms by (simp add: handle_user_message_def strip_def lit_def isspace_def)

theorem missing_text_like_blank_witness:
  "handle_user_message \<lparr>from_user_id = 42, message_text = None\<rparr>
     example_now example_now example_now (\<lambda>payload. Inl (Exception [])) [42 \<mapsto> example_session] =
   (([Reply ASK_FOR_TEXT], None), [42 \<mapsto> example_session])"
  using missing_text_like_blank
    [of "\<lparr>from_user_id = 42, message_text = None\<rparr>"
        example_now example_now example_now "\<lambda>payload. Inl (Exception [])"
        "[42 \<mapsto> example_session]"]
  by simp

text \<open>
  C10. If \<^verbatim>\<open>open\<close> or a \<^verbatim>\<open>write\<close> raises during
  \<^verbatim>\<open>save_dialog_to_file_and_clear\<close>, the sessions are unchanged; the session is removed only
  after the file has been written completely.
\<close>

theorem save_failure_keeps_session:
  assumes "save_dialog_to_file_and_clear user_id status now1 now2 flt (fs, sessions) =
             (r, fs', sessions')"
  shows "(\<forall>e. r = Inl e \<longrightarrow> sessions' = sessions)
         \<and> (sessions' user_id \<noteq> sessions user_id \<longrightarrow>
              (\<exists>filename sess. r = Inr filename \<and> sessions user_id = Some sess \<and>
                 fs' filename =
                   Some (spec_transcript user_id (isoformat now2) status (history sess))))"
  using assms by (cases rule: save_cases) auto

theorem save_failure_keeps_session_witness:
  "fst (save_dialog_to_file_and_clear 42 (lit ''solved'') example_now example_now
     (FailAt 3 (lit ''No space left on device'')) (Map.empty, [42 \<mapsto> example_session])) =
     Inl (OSError (lit ''No space left on device''))
   \<and> snd (snd (save_dialog_to_file_and_clear 42 (lit ''solved'') example_now example_now
     (FailAt 3 (lit ''No space left on device'')) (Map.empty, [42 \<mapsto> example_session]))) =
     [42 \<mapsto> example_session]"
proof -
  from example_save_fails obtain fs' where
    r: "save_dialog_to_file_and_clear 42 (lit ''solved'') example_now example_now
       (FailAt 3 (lit ''No space left on device'')) (Map.empty, [42 \<mapsto> example_session]) =
     (Inl (OSError (lit ''No space left on device'')), fs', [42 \<mapsto> example_session])"
    by blast
  from save_failure_keeps_session [OF r] show ?thesis
    unfolding r by simp
qed

end
